theory Spec2Isabelle
  imports Main
begin

section \<open>Data model of the product-variant inventory service\<close>

text \<open>
  The service of \<^verbatim>\<open>services/product-variant-inventory.ts\<close> is embedded as pure
  functions over an explicit record of its injected collaborators and stores.
  JavaScript numbers are modelled as \<open>int\<close> (quantities are whole numbers);
  an optional or nullable string is a \<open>string option\<close>; every \<^verbatim>\<open>throw\<close> is
  the \<open>Inl\<close> branch of a sum.
\<close>

datatype error_type = NOT_FOUND | INVALID_DATA | NOT_ALLOWED

datatype error =
    MedusaError error_type string
  | TypeError string

record product_variant =
  allow_backorder :: bool
  manage_inventory :: bool
  inventory_quantity :: int

text \<open>The entity \<^verbatim>\<open>ProductVariantInventoryItem\<close>: one row of the link table.\<close>

record product_variant_inventory_item =
  variant_id :: string
  inventory_item_id :: string
  quantity :: int

record line_item =
  li_variant_id :: "string option"
  li_quantity :: int
  li_title :: string

record reservation_item =
  rsv_id :: string
  rsv_location_id :: string
  rsv_inventory_item_id :: string
  rsv_quantity :: int
  rsv_created_at :: nat

record inventory_level =
  lvl_inventory_item_id :: string
  lvl_stocked_quantity :: int

text \<open>The argument object of \<^verbatim>\<open>createReservationItem\<close>.\<close>

record create_reservation_input =
  cr_type :: string
  cr_line_item_id :: "string option"
  cr_location_id :: "string option"
  cr_inventory_item_id :: string
  cr_quantity :: int

record reserve_quantity_context =
  ctx_locationId :: "string option"
  ctx_lineItemId :: "string option"
  ctx_salesChannelId :: "string option"

text \<open>
  The injected \<^verbatim>\<open>IInventoryService\<close> is an interface whose implementation lives
  outside the service. Its read operations are taken as functions; its write
  operations are recorded as the list of calls the service issues.
\<close>

record inventory_service =
  svc_confirmInventory :: "string \<Rightarrow> string list \<Rightarrow> int \<Rightarrow> bool"
  svc_listReservationItems :: "string \<Rightarrow> reservation_item list \<times> nat"
  svc_listInventoryLevels :: "string list \<Rightarrow> string \<Rightarrow> inventory_level list"
  svc_hasInventoryItem :: "string \<Rightarrow> bool"

datatype ledger_call =
    CreateReservationItem create_reservation_input
  | UpdateReservationItem string int
  | DeleteReservationItem string
  | DeleteReservationItemsByLineItem string

text \<open>
  The service instance: \<open>inventoryService\<close> (the field
  \<^verbatim>\<open>inventoryService_\<close>) is \<open>None\<close> when no inventory service is
  injected; \<open>salesChannelLocations\<close> is
  \<^verbatim>\<open>salesChannelLocationService_.listLocations\<close>; \<open>stockLocations\<close> is the id list
  of \<^verbatim>\<open>stockLocationService_.list({})\<close>; \<open>variants\<close> is the variant store behind
  \<^verbatim>\<open>productVariantService_\<close>; \<open>links\<close> is the table behind the
  \<^verbatim>\<open>ProductVariantInventoryItem\<close> repository.
\<close>

record service =
  inventoryService :: "inventory_service option"
  salesChannelLocations :: "string \<Rightarrow> string list"
  stockLocations :: "string list"
  variants :: "string \<rightharpoonup> product_variant"
  links :: "product_variant_inventory_item list"

section \<open>Helpers of the JavaScript runtime and of the collaborators\<close>

text \<open>Truthiness of a \<^verbatim>\<open>string | null | undefined\<close>: absent and empty are falsy.\<close>

fun truthy_str :: "string option \<Rightarrow> bool" where
  "truthy_str None = False"
| "truthy_str (Some s) = (s \<noteq> [])"

text \<open>
  Modelled from the spec: \<^verbatim>\<open>isDefined\<close> of medusa-core-utils is not among the
  sources; it tells whether a value is not \<^verbatim>\<open>undefined\<close>.
\<close>

fun isDefined :: "'a option \<Rightarrow> bool" where
  "isDefined None = False"
| "isDefined (Some _) = True"

text \<open>
  Modelled from the spec: the Variant Store, \<^verbatim>\<open>retrieve(id, fields)\<close> failing
  with NotFound if the id is unknown, and \<^verbatim>\<open>update(id, {inventoryQuantity})\<close>.
\<close>

definition retrieve_variant :: "service \<Rightarrow> string \<Rightarrow> error + product_variant" where
  "retrieve_variant s variantId =
     (case variants s variantId of
        None \<Rightarrow> Inl (MedusaError NOT_FOUND (''Variant with id: '' @ variantId @ '' was not found''))
      | Some v \<Rightarrow> Inr v)"

definition update_variant :: "service \<Rightarrow> string \<Rightarrow> int \<Rightarrow> service" where
  "update_variant s variantId q =
     (case variants s variantId of
        None \<Rightarrow> s
      | Some v \<Rightarrow> s\<lparr>variants := (variants s)(variantId \<mapsto> v\<lparr>inventory_quantity := q\<rparr>)\<rparr>)"

text \<open>
  Values that a property read can yield in \<open>validateInventoryAtLocation\<close>:
  \<^verbatim>\<open>undefined\<close>, a built-in function or object, or a number. None of them
  carries a numeric \<^verbatim>\<open>quantity\<close> property.
\<close>

datatype js_value = Undefined | Builtin | Number nat

fun truthy :: "js_value \<Rightarrow> bool" where
  "truthy Undefined = False"
| "truthy Builtin = True"
| "truthy (Number n) = (n \<noteq> 0)"

fun quantity_prop :: "js_value \<Rightarrow> int option" where
  "quantity_prop _ = None"

text \<open>
  String-keyed members that every \<^verbatim>\<open>Map\<close> object inherits from
  \<^verbatim>\<open>Map.prototype\<close> and \<^verbatim>\<open>Object.prototype\<close>.
\<close>

definition map_members :: "string list" where
  "map_members =
     [''constructor'', ''get'', ''set'', ''has'', ''delete'', ''clear'', ''entries'',
      ''forEach'', ''keys'', ''values'', ''hasOwnProperty'', ''isPrototypeOf'',
      ''propertyIsEnumerable'', ''toLocaleString'', ''toString'', ''valueOf'',
      ''__proto__'', ''__defineGetter__'', ''__defineSetter__'', ''__lookupGetter__'',
      ''__lookupSetter__'']"

text \<open>
  The read \<^verbatim>\<open>pviMap[key]\<close> on the \<^verbatim>\<open>Map\<close> built from the links. The entries
  of a \<^verbatim>\<open>Map\<close> are not properties of the object (only \<^verbatim>\<open>pviMap.get(key)\<close>
  reaches them), so the read finds inherited members only: the accessor
  \<^verbatim>\<open>size\<close>, the number of distinct keys, and the built-in methods.
\<close>

definition pviMap_read :: "product_variant_inventory_item list \<Rightarrow> string \<Rightarrow> js_value" where
  "pviMap_read pvInventoryItems key =
     (if key = ''size'' then Number (length (remdups (map inventory_item_id pvInventoryItems)))
      else if key \<in> set map_members then Builtin
      else Undefined)"

section \<open>The operations\<close>

text \<open>\<^verbatim>\<open>listByVariant\<close>: the rows whose variant is among the given ids.\<close>

definition listByVariant :: "service \<Rightarrow> string list \<Rightarrow> product_variant_inventory_item list" where
  "listByVariant s ids = filter (\<lambda>l. variant_id l \<in> set ids) (links s)"

text \<open>\<^verbatim>\<open>retrieve(inventoryItemId, variantId)\<close>: the link of a pair, or NOT_FOUND.\<close>

definition retrieve :: "service \<Rightarrow> string \<Rightarrow> string \<Rightarrow> error + product_variant_inventory_item" where
  "retrieve s inventoryItemId variantId =
     (case find (\<lambda>l. inventory_item_id l = inventoryItemId \<and> variant_id l = variantId) (links s) of
        None \<Rightarrow> Inl (MedusaError NOT_FOUND
                  (''Inventory item with id '' @ inventoryItemId @ '' not found''))
      | Some variantInventory \<Rightarrow> Inr variantInventory)"

definition confirmInventory ::
  "service \<Rightarrow> string option \<Rightarrow> int \<Rightarrow> string option \<Rightarrow> error + bool" where
  "confirmInventory s variantId qty salesChannelId =
     (if \<not> truthy_str variantId then Inr True
      else
        (case retrieve_variant s (the variantId) of
           Inl e \<Rightarrow> Inl e
         | Inr productVariant \<Rightarrow>
             (if allow_backorder productVariant \<or> \<not> manage_inventory productVariant
              then Inr True
              else
                (case inventoryService s of
                   None \<Rightarrow> Inr (inventory_quantity productVariant \<ge> qty)
                 | Some ledger \<Rightarrow>
                     (let variantInventory = listByVariant s [the variantId] in
                      if length variantInventory = 0 then Inr True
                      else
                        (let locations =
                               (if truthy_str salesChannelId
                                then salesChannelLocations s (the salesChannelId)
                                else stockLocations s);
                             hasInventory =
                               map (\<lambda>inventoryPart.
                                      svc_confirmInventory ledger
                                        (inventory_item_id inventoryPart)
                                        locations (quantity inventoryPart * qty))
                                   variantInventory
                         in Inr (list_all (\<lambda>b. b) hasInventory)))))))"

text \<open>
  \<^verbatim>\<open>attachInventoryItem\<close>: returns the link and the service with its table.
  Without an inventory service the call of \<^verbatim>\<open>retrieveInventoryItem\<close> on
  \<^verbatim>\<open>undefined\<close> is a TypeError; with one, an unknown item is its NOT_FOUND
  error. Saving appends the new row to the table.
\<close>

definition attachInventoryItem ::
  "service \<Rightarrow> string \<Rightarrow> string \<Rightarrow> int option
     \<Rightarrow> error + (product_variant_inventory_item \<times> service)" where
  "attachInventoryItem s variantId inventoryItemId qty =
     (case retrieve_variant s variantId of
        Inl e \<Rightarrow> Inl e
      | Inr _ \<Rightarrow>
          (case inventoryService s of
             None \<Rightarrow> Inl (TypeError ''Cannot read properties of undefined'')
           | Some ledger \<Rightarrow>
               (if \<not> svc_hasInventoryItem ledger inventoryItemId
                then Inl (MedusaError NOT_FOUND
                       (''InventoryItem with id '' @ inventoryItemId @ '' was not found''))
                else
                  (case find (\<lambda>l. variant_id l = variantId \<and>
                                   inventory_item_id l = inventoryItemId) (links s) of
                     Some existing \<Rightarrow> Inr (existing, s)
                   | None \<Rightarrow>
                       (case (case qty of
                                None \<Rightarrow> Inr 1
                              | Some q \<Rightarrow>
                                  (if q < 1
                                   then Inl (MedusaError INVALID_DATA
                                               ''Quantity must be greater than 0'')
                                   else Inr q)) of
                          Inl e \<Rightarrow> Inl e
                        | Inr quantityToStore \<Rightarrow>
                            (let variantInventory =
                                   \<lparr>variant_id = variantId,
                                    inventory_item_id = inventoryItemId,
                                    quantity = quantityToStore\<rparr>
                             in Inr (variantInventory,
                                     s\<lparr>links := links s @ [variantInventory]\<rparr>)))))))"

text \<open>Lines 358 to 372 of \<^verbatim>\<open>reserveQuantity\<close>: the location the reservations get.\<close>

definition reserve_location :: "service \<Rightarrow> reserve_quantity_context \<Rightarrow> error + string option" where
  "reserve_location s ctx =
     (if \<not> isDefined (ctx_locationId ctx) \<and> truthy_str (ctx_salesChannelId ctx) then
        (case salesChannelLocations s (the (ctx_salesChannelId ctx)) of
           [] \<Rightarrow> Inl (MedusaError INVALID_DATA
                   ''Must provide location_id or sales_channel_id to a Sales Channel that has associated Stock Locations'')
         | l # _ \<Rightarrow> Inr (Some l))
      else Inr (ctx_locationId ctx))"

text \<open>
  The mutating operations return the service (with the variant store as they
  leave it) and the write calls issued to the inventory service, in order.
\<close>

definition reserveQuantity ::
  "service \<Rightarrow> string \<Rightarrow> int \<Rightarrow> reserve_quantity_context
     \<Rightarrow> error + (service \<times> ledger_call list)" where
  "reserveQuantity s variantId qty ctx =
     (case inventoryService s of
        None \<Rightarrow>
          (case retrieve_variant s variantId of
             Inl e \<Rightarrow> Inl e
           | Inr variant \<Rightarrow>
               Inr (update_variant s variantId (inventory_quantity variant - qty), []))
      | Some ledger \<Rightarrow>
          (let variantInventory = listByVariant s [variantId] in
           if length variantInventory = 0 then Inr (s, [])
           else
             (case reserve_location s ctx of
                Inl e \<Rightarrow> Inl e
              | Inr locationId \<Rightarrow>
                  Inr (s, map (\<lambda>inventoryPart.
                                 CreateReservationItem
                                   \<lparr>cr_type = ''order'',
                                    cr_line_item_id = ctx_lineItemId ctx,
                                    cr_location_id = locationId,
                                    cr_inventory_item_id = inventory_item_id inventoryPart,
                                    cr_quantity = quantity inventoryPart * qty\<rparr>)
                               variantInventory))))"

text \<open>
  Lines 428 to 433 of \<^verbatim>\<open>adjustReservationsQuantityByLineItem\<close>: the first
  listed reservation, unless \<^verbatim>\<open>find\<close> yields one. \<open>None\<close> is \<^verbatim>\<open>undefined\<close>
  (an empty listing).
\<close>

definition target_reservation ::
  "reservation_item list \<Rightarrow> string \<Rightarrow> int \<Rightarrow> reservation_item option" where
  "target_reservation reservations locationId qty =
     (case find (\<lambda>r. rsv_location_id r = locationId \<and> rsv_quantity r \<ge> qty) reservations of
        Some r \<Rightarrow> Some r
      | None \<Rightarrow> (case reservations of [] \<Rightarrow> None | r # _ \<Rightarrow> Some r))"

definition adjustReservationsQuantityByLineItem ::
  "service \<Rightarrow> string \<Rightarrow> string \<Rightarrow> string \<Rightarrow> int \<Rightarrow> error + (service \<times> ledger_call list)" where
  "adjustReservationsQuantityByLineItem s lineItemId variantId locationId qty =
     (case inventoryService s of
        None \<Rightarrow>
          (case retrieve_variant s variantId of
             Inl e \<Rightarrow> Inl e
           | Inr variant \<Rightarrow>
               if \<not> manage_inventory variant then Inr (s, [])
               else Inr (update_variant s variantId (inventory_quantity variant - qty), []))
      | Some ledger \<Rightarrow>
          (case svc_listReservationItems ledger lineItemId of
             (reservations, reservationCount) \<Rightarrow>
               if reservationCount \<noteq> 0 then
                 (case target_reservation reservations locationId qty of
                    None \<Rightarrow> Inl (TypeError ''Cannot read properties of undefined'')
                  | Some reservation \<Rightarrow>
                      (case retrieve s (rsv_inventory_item_id reservation) variantId of
                         Inl e \<Rightarrow> Inl e
                       | Inr productVariantInventory \<Rightarrow>
                           let reservationQtyUpdate =
                                 rsv_quantity reservation - qty * quantity productVariantInventory
                           in if reservationQtyUpdate = 0
                              then Inr (s, [DeleteReservationItem (rsv_id reservation)])
                              else Inr (s, [UpdateReservationItem (rsv_id reservation)
                                              reservationQtyUpdate])))
               else Inr (s, [])))"

text \<open>
  The inner loop of \<^verbatim>\<open>validateInventoryAtLocation\<close> over the stock levels
  returned for one line item. The comparison on a value without a numeric
  \<^verbatim>\<open>quantity\<close> compares \<^verbatim>\<open>NaN\<close> and is false.
\<close>

fun validate_levels ::
  "product_variant_inventory_item list \<Rightarrow> line_item \<Rightarrow> inventory_level list \<Rightarrow> error + unit" where
  "validate_levels pvInventoryItems item [] = Inr ()"
| "validate_levels pvInventoryItems item (inventoryLevel # inventoryLevels) =
     (let pvInventoryItem = pviMap_read pvInventoryItems (lvl_inventory_item_id inventoryLevel) in
      if \<not> truthy pvInventoryItem \<or>
         (case quantity_prop pvInventoryItem of
            None \<Rightarrow> False
          | Some q \<Rightarrow> q * li_quantity item > lvl_stocked_quantity inventoryLevel)
      then Inl (MedusaError NOT_ALLOWED (''Insufficient stock for item: '' @ li_title item))
      else validate_levels pvInventoryItems item inventoryLevels)"

fun validate_items :: "service \<Rightarrow> inventory_service \<Rightarrow> line_item list \<Rightarrow> string \<Rightarrow> error + unit" where
  "validate_items s ledger [] locationId = Inr ()"
| "validate_items s ledger (item # items) locationId =
     (let pvInventoryItems = listByVariant s [the (li_variant_id item)];
          inventoryLevels =
            svc_listInventoryLevels ledger (map inventory_item_id pvInventoryItems) locationId
      in case validate_levels pvInventoryItems item inventoryLevels of
           Inl e \<Rightarrow> Inl e
         | Inr _ \<Rightarrow> validate_items s ledger items locationId)"

text \<open>
  \<^verbatim>\<open>validateInventoryAtLocation\<close> calls no write operation and no store update.
  Like the other operations it returns, when it does not throw, the service and
  the list of write calls issued.
\<close>

definition validateInventoryAtLocation ::
  "service \<Rightarrow> line_item list \<Rightarrow> string \<Rightarrow> error + (service \<times> ledger_call list)" where
  "validateInventoryAtLocation s items locationId =
     (case inventoryService s of
        None \<Rightarrow> Inr (s, [])
      | Some ledger \<Rightarrow>
          (case validate_items s ledger
                  (filter (\<lambda>item. truthy_str (li_variant_id item)) items) locationId of
             Inl e \<Rightarrow> Inl e
           | Inr _ \<Rightarrow> Inr (s, [])))"

definition deleteReservationsByLineItem ::
  "service \<Rightarrow> string \<Rightarrow> string \<Rightarrow> int \<Rightarrow> error + (service \<times> ledger_call list)" where
  "deleteReservationsByLineItem s lineItemId variantId qty =
     (case inventoryService s of
        None \<Rightarrow>
          (case retrieve_variant s variantId of
             Inl e \<Rightarrow> Inl e
           | Inr variant \<Rightarrow>
               if \<not> manage_inventory variant then Inr (s, [])
               else Inr (update_variant s variantId (inventory_quantity variant + qty), []))
      | Some ledger \<Rightarrow> Inr (s, [DeleteReservationItemsByLineItem lineItemId]))"

section \<open>Sample configurations\<close>

text \<open>
  A sample inventory service over a stock table of (item, location, stocked
  quantity) rows and a fixed listing of reservations, and a sample service
  instance. They only provide concrete inputs for the examples below.
\<close>

definition sample_ledger ::
  "(string \<times> string \<times> int) list \<Rightarrow> reservation_item list \<Rightarrow> inventory_service" where
  "sample_ledger stock reservations =
     \<lparr>svc_confirmInventory =
        (\<lambda>itemId locationIds q.
           q \<le> sum_list (map (\<lambda>(i, l, n). if i = itemId \<and> l \<in> set locationIds then n else 0) stock)),
      svc_listReservationItems = (\<lambda>lineItemId. (reservations, length reservations)),
      svc_listInventoryLevels =
        (\<lambda>itemIds locationId.
           map (\<lambda>(i, l, n). \<lparr>lvl_inventory_item_id = i, lvl_stocked_quantity = n\<rparr>)
               (filter (\<lambda>(i, l, n). i \<in> set itemIds \<and> l = locationId) stock)),
      svc_hasInventoryItem = (\<lambda>itemId. itemId \<in> set (map fst stock))\<rparr>"

definition sample_variants :: "string \<rightharpoonup> product_variant" where
  "sample_variants =
     [''V1'' \<mapsto> \<lparr>allow_backorder = False, manage_inventory = True, inventory_quantity = 10\<rparr>,
      ''V2'' \<mapsto> \<lparr>allow_backorder = True, manage_inventory = True, inventory_quantity = 0\<rparr>,
      ''V3'' \<mapsto> \<lparr>allow_backorder = False, manage_inventory = False, inventory_quantity = 0\<rparr>]"

definition sample_links :: "product_variant_inventory_item list" where
  "sample_links =
     [\<lparr>variant_id = ''V1'', inventory_item_id = ''I1'', quantity = 2\<rparr>,
      \<lparr>variant_id = ''V1'', inventory_item_id = ''I2'', quantity = 1\<rparr>,
      \<lparr>variant_id = ''V2'', inventory_item_id = ''I1'', quantity = 3\<rparr>]"

definition sample_service :: "inventory_service option \<Rightarrow> service" where
  "sample_service ledger =
     \<lparr>inventoryService = ledger,
      salesChannelLocations = (\<lambda>c. if c = ''sc_1'' then [''loc-1'', ''loc-2''] else []),
      stockLocations = [''loc-1'', ''loc-2''],
      variants = sample_variants,
      links = sample_links\<rparr>"

definition sample_reservations :: "reservation_item list" where
  "sample_reservations =
     [\<lparr>rsv_id = ''res_1'', rsv_location_id = ''loc-1'', rsv_inventory_item_id = ''I1'',
       rsv_quantity = 6, rsv_created_at = 20\<rparr>,
      \<lparr>rsv_id = ''res_2'', rsv_location_id = ''loc-2'', rsv_inventory_item_id = ''I2'',
       rsv_quantity = 2, rsv_created_at = 10\<rparr>]"

lemmas sample_defs =
  sample_ledger_def sample_variants_def sample_links_def sample_service_def
  sample_reservations_def

section \<open>Availability of untracked variants\<close>

text \<open>
  Claim C8. For a variant that allows backorders or whose inventory is not
  managed, \<open>confirmInventory\<close> returns true for every requested quantity,
  whether or not an inventory service is injected (the service \<open>s\<close> is
  arbitrary); an absent variant id returns true as well.
\<close>

theorem confirmInventory_untracked_variant:
  "(variants s vid = Some pv \<and> (allow_backorder pv \<or> \<not> manage_inventory pv)
      \<longrightarrow> confirmInventory s (Some vid) qty salesChannelId = Inr True)
   \<and> confirmInventory s None qty salesChannelId = Inr True"
  by (auto simp: confirmInventory_def retrieve_variant_def)

theorem confirmInventory_untracked_variant_witness:
  "confirmInventory (sample_service None) (Some ''V2'') 1000 None = Inr True
   \<and> confirmInventory (sample_service (Some (sample_ledger [] []))) (Some ''V3'') 1000 None
       = Inr True"
  using confirmInventory_untracked_variant
      [of "sample_service None" "''V2''"
          "\<lparr>allow_backorder = True, manage_inventory = True, inventory_quantity = 0\<rparr>" 1000 None]
    confirmInventory_untracked_variant
      [of "sample_service (Some (sample_ledger [] []))" "''V3''"
          "\<lparr>allow_backorder = False, manage_inventory = False, inventory_quantity = 0\<rparr>"
          1000 None]
  by (simp add: sample_defs)

section \<open>The single counter, without an inventory service\<close>

text \<open>
  Claim C9. Without an inventory service, \<open>reserveQuantity\<close> lowers the
  variant's \<open>inventory_quantity\<close> by the requested quantity whatever the
  variant's \<open>manage_inventory\<close> flag is, and issues no call; for a variant whose
  \<open>manage_inventory\<close> is false, \<open>adjustReservationsQuantityByLineItem\<close> and
  \<open>deleteReservationsByLineItem\<close> change nothing.
\<close>

theorem simple_mode_reserve_ignores_manage_inventory:
  assumes "inventoryService s = None" and "variants s vid = Some pv"
  shows "reserveQuantity s vid qty ctx =
           Inr (s\<lparr>variants := (variants s)(vid \<mapsto>
                     pv\<lparr>inventory_quantity := inventory_quantity pv - qty\<rparr>)\<rparr>, [])
         \<and> (\<not> manage_inventory pv \<longrightarrow>
              adjustReservationsQuantityByLineItem s lineItemId vid locationId qty = Inr (s, [])
              \<and> deleteReservationsByLineItem s lineItemId vid qty = Inr (s, []))"
  using assms
  by (simp add: reserveQuantity_def adjustReservationsQuantityByLineItem_def
      deleteReservationsByLineItem_def retrieve_variant_def update_variant_def)

theorem simple_mode_reserve_ignores_manage_inventory_witness:
  "reserveQuantity (sample_service None) ''V3'' 4
       \<lparr>ctx_locationId = None, ctx_lineItemId = Some ''li_1'', ctx_salesChannelId = None\<rparr>
     = Inr ((sample_service None)\<lparr>variants := sample_variants(''V3'' \<mapsto>
              \<lparr>allow_backorder = False, manage_inventory = False, inventory_quantity = - 4\<rparr>)\<rparr>, [])
   \<and> adjustReservationsQuantityByLineItem (sample_service None) ''li_1'' ''V3'' ''loc-1'' 4
       = Inr (sample_service None, [])
   \<and> deleteReservationsByLineItem (sample_service None) ''li_1'' ''V3'' 4
       = Inr (sample_service None, [])"
  using simple_mode_reserve_ignores_manage_inventory
      [of "sample_service None" "''V3''"
          "\<lparr>allow_backorder = False, manage_inventory = False, inventory_quantity = 0\<rparr>" 4
          "\<lparr>ctx_locationId = None, ctx_lineItemId = Some ''li_1'', ctx_salesChannelId = None\<rparr>"
          "''li_1''" "''loc-1''"]
  by (simp add: sample_defs)

section \<open>Adjusting the reservations of a line item\<close>

text \<open>
  Claim C10. With an inventory service whose listing reports no reservation
  for the line item (a count of zero), the adjustment returns normally and
  issues no create, update or delete call.
\<close>

theorem adjust_without_reservations_noop:
  assumes "inventoryService s = Some ledger"
    and "snd (svc_listReservationItems ledger lineItemId) = 0"
  shows "adjustReservationsQuantityByLineItem s lineItemId vid locationId qty = Inr (s, [])"
  using assms
  by (cases "svc_listReservationItems ledger lineItemId")
     (simp add: adjustReservationsQuantityByLineItem_def)

theorem adjust_without_reservations_noop_witness:
  "adjustReservationsQuantityByLineItem (sample_service (Some (sample_ledger [] [])))
       ''li_1'' ''V1'' ''loc-1'' 2
     = Inr (sample_service (Some (sample_ledger [] [])), [])"
  using adjust_without_reservations_noop
      [of "sample_service (Some (sample_ledger [] []))" "sample_ledger [] []"
          "''li_1''" "''V1''" "''loc-1''" 2]
  by (simp add: sample_defs)

text \<open>
  Claim C7. For the targeted reservation \<open>r\<close> and the link of its item with the
  variant, the new quantity is the old one minus the delta times the link's
  quantity; the only call issued is the deletion of \<open>r\<close> when that is exactly
  zero, and otherwise the update of \<open>r\<close> to the new quantity.
\<close>

theorem adjust_quantity_delete_or_update:
  assumes "inventoryService s = Some ledger"
    and "svc_listReservationItems ledger lineItemId = (rs, n)" and "n \<noteq> 0"
    and "target_reservation rs locationId deltaQuantity = Some r"
    and "retrieve s (rsv_inventory_item_id r) vid = Inr link"
  shows "adjustReservationsQuantityByLineItem s lineItemId vid locationId deltaQuantity =
           Inr (s, [if rsv_quantity r - deltaQuantity * quantity link = 0
                    then DeleteReservationItem (rsv_id r)
                    else UpdateReservationItem (rsv_id r)
                           (rsv_quantity r - deltaQuantity * quantity link)])"
  using assms
  by (simp add: adjustReservationsQuantityByLineItem_def Let_def)

theorem adjust_quantity_delete_or_update_witness:
  "adjustReservationsQuantityByLineItem
       (sample_service (Some (sample_ledger [] sample_reservations))) ''li_1'' ''V1'' ''loc-1'' 3
     = Inr (sample_service (Some (sample_ledger [] sample_reservations)),
            [DeleteReservationItem ''res_1''])
   \<and> adjustReservationsQuantityByLineItem
       (sample_service (Some (sample_ledger [] sample_reservations))) ''li_1'' ''V1'' ''loc-1'' 1
     = Inr (sample_service (Some (sample_ledger [] sample_reservations)),
            [UpdateReservationItem ''res_1'' 4])"
  using adjust_quantity_delete_or_update
      [of "sample_service (Some (sample_ledger [] sample_reservations))"
          "sample_ledger [] sample_reservations" "''li_1''" sample_reservations 2 "''loc-1''" 3
          "hd sample_reservations" "''V1''" "hd sample_links"]
    adjust_quantity_delete_or_update
      [of "sample_service (Some (sample_ledger [] sample_reservations))"
          "sample_ledger [] sample_reservations" "''li_1''" sample_reservations 2 "''loc-1''" 1
          "hd sample_reservations" "''V1''" "hd sample_links"]
  by (simp add: sample_defs target_reservation_def retrieve_def)

section \<open>Reserving a quantity of a variant\<close>

text \<open>
  Claim C6 as stated fails on two inputs for variant V1, which has two links.
  With no location id and a sales channel without locations, the call throws
  and requests no reservation. With neither a location id nor a sales channel
  id, no location is resolved and the two reservations are requested without
  a location.
\<close>

theorem reserve_unresolved_location_counterexample:
  "reserveQuantity (sample_service (Some (sample_ledger [] []))) ''V1'' 3
       \<lparr>ctx_locationId = None, ctx_lineItemId = Some ''li_1'', ctx_salesChannelId = Some ''sc_9''\<rparr>
     = Inl (MedusaError INVALID_DATA
         ''Must provide location_id or sales_channel_id to a Sales Channel that has associated Stock Locations'')
   \<and> reserveQuantity (sample_service (Some (sample_ledger [] []))) ''V1'' 3
       \<lparr>ctx_locationId = None, ctx_lineItemId = Some ''li_1'', ctx_salesChannelId = None\<rparr>
     = Inr (sample_service (Some (sample_ledger [] [])),
            [CreateReservationItem \<lparr>cr_type = ''order'', cr_line_item_id = Some ''li_1'',
               cr_location_id = None, cr_inventory_item_id = ''I1'', cr_quantity = 6\<rparr>,
             CreateReservationItem \<lparr>cr_type = ''order'', cr_line_item_id = Some ''li_1'',
               cr_location_id = None, cr_inventory_item_id = ''I2'', cr_quantity = 3\<rparr>])"
  by (simp add: sample_defs reserveQuantity_def reserve_location_def listByVariant_def)

text \<open>
  Claim C6, amended. With an inventory service, reserving \<open>Q\<close> of a variant
  without links issues no call. For a variant with links the call throws the
  INVALID_DATA error asking for a location, issuing nothing, when no location
  id is given and the given sales channel has no location. In every other case
  it issues exactly the list of \<open>createReservationItem\<close> calls that has, for
  each link of the variant in turn, one call of \<open>Q\<close> times the link's quantity
  of the link's item, of type \<open>order\<close>, with the given line item id, and all at
  the same location: the given location id; without one, the first location of
  the given sales channel; with neither, no location.
\<close>

theorem reserve_creates_one_reservation_per_link:
  assumes "inventoryService s = Some ledger"
  shows "(listByVariant s [vid] = [] \<longrightarrow> reserveQuantity s vid Q ctx = Inr (s, []))
       \<and> (listByVariant s [vid] \<noteq> [] \<longrightarrow>
            (ctx_locationId ctx = Some L \<longrightarrow>
               reserveQuantity s vid Q ctx =
                 Inr (s, map (\<lambda>l. CreateReservationItem
                            \<lparr>cr_type = ''order'',
                             cr_line_item_id = ctx_lineItemId ctx,
                             cr_location_id = Some L,
                             cr_inventory_item_id = inventory_item_id l,
                             cr_quantity = Q * quantity l\<rparr>)
                      (listByVariant s [vid])))
          \<and> (ctx_locationId ctx = None \<and> truthy_str (ctx_salesChannelId ctx) \<and>
              (\<exists>rest. salesChannelLocations s (the (ctx_salesChannelId ctx)) = L # rest) \<longrightarrow>
               reserveQuantity s vid Q ctx =
                 Inr (s, map (\<lambda>l. CreateReservationItem
                            \<lparr>cr_type = ''order'',
                             cr_line_item_id = ctx_lineItemId ctx,
                             cr_location_id = Some L,
                             cr_inventory_item_id = inventory_item_id l,
                             cr_quantity = Q * quantity l\<rparr>)
                      (listByVariant s [vid])))
          \<and> (ctx_locationId ctx = None \<and> \<not> truthy_str (ctx_salesChannelId ctx) \<longrightarrow>
               reserveQuantity s vid Q ctx =
                 Inr (s, map (\<lambda>l. CreateReservationItem
                            \<lparr>cr_type = ''order'',
                             cr_line_item_id = ctx_lineItemId ctx,
                             cr_location_id = None,
                             cr_inventory_item_id = inventory_item_id l,
                             cr_quantity = Q * quantity l\<rparr>)
                      (listByVariant s [vid])))
          \<and> (ctx_locationId ctx = None \<and> truthy_str (ctx_salesChannelId ctx) \<and>
              salesChannelLocations s (the (ctx_salesChannelId ctx)) = [] \<longrightarrow>
               reserveQuantity s vid Q ctx =
                 Inl (MedusaError INVALID_DATA
                   ''Must provide location_id or sales_channel_id to a Sales Channel that has associated Stock Locations'')))"
  using assms
  by (auto simp: reserveQuantity_def reserve_location_def Let_def mult.commute)

theorem reserve_creates_one_reservation_per_link_witness:
  "reserveQuantity (sample_service (Some (sample_ledger [] []))) ''V3'' 3
       \<lparr>ctx_locationId = None, ctx_lineItemId = Some ''li_1'', ctx_salesChannelId = Some ''sc_1''\<rparr>
     = Inr (sample_service (Some (sample_ledger [] [])), [])
   \<and> reserveQuantity (sample_service (Some (sample_ledger [] []))) ''V1'' 3
       \<lparr>ctx_locationId = Some ''loc-2'', ctx_lineItemId = Some ''li_1'',
        ctx_salesChannelId = Some ''sc_1''\<rparr>
     = Inr (sample_service (Some (sample_ledger [] [])),
            [CreateReservationItem \<lparr>cr_type = ''order'', cr_line_item_id = Some ''li_1'',
               cr_location_id = Some ''loc-2'', cr_inventory_item_id = ''I1'', cr_quantity = 6\<rparr>,
             CreateReservationItem \<lparr>cr_type = ''order'', cr_line_item_id = Some ''li_1'',
               cr_location_id = Some ''loc-2'', cr_inventory_item_id = ''I2'', cr_quantity = 3\<rparr>])
   \<and> reserveQuantity (sample_service (Some (sample_ledger [] []))) ''V1'' 3
       \<lparr>ctx_locationId = None, ctx_lineItemId = Some ''li_1'', ctx_salesChannelId = Some ''sc_1''\<rparr>
     = Inr (sample_service (Some (sample_ledger [] [])),
            [CreateReservationItem \<lparr>cr_type = ''order'', cr_line_item_id = Some ''li_1'',
               cr_location_id = Some ''loc-1'', cr_inventory_item_id = ''I1'', cr_quantity = 6\<rparr>,
             CreateReservationItem \<lparr>cr_type = ''order'', cr_line_item_id = Some ''li_1'',
               cr_location_id = Some ''loc-1'', cr_inventory_item_id = ''I2'', cr_quantity = 3\<rparr>])
   \<and> reserveQuantity (sample_service (Some (sample_ledger [] []))) ''V2'' 4
       \<lparr>ctx_locationId = None, ctx_lineItemId = Some ''li_2'', ctx_salesChannelId = None\<rparr>
     = Inr (sample_service (Some (sample_ledger [] [])),
            [CreateReservationItem \<lparr>cr_type = ''order'', cr_line_item_id = Some ''li_2'',
               cr_location_id = None, cr_inventory_item_id = ''I1'', cr_quantity = 12\<rparr>])
   \<and> reserveQuantity (sample_service (Some (sample_ledger [] []))) ''V2'' 4
       \<lparr>ctx_locationId = None, ctx_lineItemId = Some ''li_2'', ctx_salesChannelId = Some ''sc_7''\<rparr>
     = Inl (MedusaError INVALID_DATA
         ''Must provide location_id or sales_channel_id to a Sales Channel that has associated Stock Locations'')"
proof -
  let ?s = "sample_service (Some (sample_ledger [] []))"
  have h: "inventoryService ?s = Some (sample_ledger [] [])"
    by (simp add: sample_service_def)
  have l1: "listByVariant ?s [''V1'']
              = [\<lparr>variant_id = ''V1'', inventory_item_id = ''I1'', quantity = 2\<rparr>,
                 \<lparr>variant_id = ''V1'', inventory_item_id = ''I2'', quantity = 1\<rparr>]"
    and l2: "listByVariant ?s [''V2'']
              = [\<lparr>variant_id = ''V2'', inventory_item_id = ''I1'', quantity = 3\<rparr>]"
    and l3: "listByVariant ?s [''V3''] = []"
    by (simp_all add: sample_service_def sample_links_def listByVariant_def)
  have c1: "salesChannelLocations ?s ''sc_1'' = ''loc-1'' # [''loc-2'']"
    and c7: "salesChannelLocations ?s ''sc_7'' = []"
    by (simp_all add: sample_service_def)
  from reserve_creates_one_reservation_per_link [OF h, of "''V3''" 3
         "\<lparr>ctx_locationId = None, ctx_lineItemId = Some ''li_1'',
           ctx_salesChannelId = Some ''sc_1''\<rparr>" "''loc-1''"] l3
  have w0: "reserveQuantity ?s ''V3'' 3
       \<lparr>ctx_locationId = None, ctx_lineItemId = Some ''li_1'', ctx_salesChannelId = Some ''sc_1''\<rparr>
     = Inr (?s, [])"
    by simp
  from reserve_creates_one_reservation_per_link [OF h, of "''V1''" 3
         "\<lparr>ctx_locationId = Some ''loc-2'', ctx_lineItemId = Some ''li_1'',
           ctx_salesChannelId = Some ''sc_1''\<rparr>" "''loc-2''"] l1
  have w1: "reserveQuantity ?s ''V1'' 3
       \<lparr>ctx_locationId = Some ''loc-2'', ctx_lineItemId = Some ''li_1'',
        ctx_salesChannelId = Some ''sc_1''\<rparr>
     = Inr (?s,
            [CreateReservationItem \<lparr>cr_type = ''order'', cr_line_item_id = Some ''li_1'',
               cr_location_id = Some ''loc-2'', cr_inventory_item_id = ''I1'', cr_quantity = 6\<rparr>,
             CreateReservationItem \<lparr>cr_type = ''order'', cr_line_item_id = Some ''li_1'',
               cr_location_id = Some ''loc-2'', cr_inventory_item_id = ''I2'', cr_quantity = 3\<rparr>])"
    by simp
  from reserve_creates_one_reservation_per_link [OF h, of "''V1''" 3
         "\<lparr>ctx_locationId = None, ctx_lineItemId = Some ''li_1'',
           ctx_salesChannelId = Some ''sc_1''\<rparr>" "''loc-1''"] l1 c1
  have w2: "reserveQuantity ?s ''V1'' 3
       \<lparr>ctx_locationId = None, ctx_lineItemId = Some ''li_1'', ctx_salesChannelId = Some ''sc_1''\<rparr>
     = Inr (?s,
            [CreateReservationItem \<lparr>cr_type = ''order'', cr_line_item_id = Some ''li_1'',
               cr_location_id = Some ''loc-1'', cr_inventory_item_id = ''I1'', cr_quantity = 6\<rparr>,
             CreateReservationItem \<lparr>cr_type = ''order'', cr_line_item_id = Some ''li_1'',
               cr_location_id = Some ''loc-1'', cr_inventory_item_id = ''I2'', cr_quantity = 3\<rparr>])"
    by simp
  from reserve_creates_one_reservation_per_link [OF h, of "''V2''" 4
         "\<lparr>ctx_locationId = None, ctx_lineItemId = Some ''li_2'',
           ctx_salesChannelId = None\<rparr>" "''loc-1''"] l2
  have w3: "reserveQuantity ?s ''V2'' 4
       \<lparr>ctx_locationId = None, ctx_lineItemId = Some ''li_2'', ctx_salesChannelId = None\<rparr>
     = Inr (?s,
            [CreateReservationItem \<lparr>cr_type = ''order'', cr_line_item_id = Some ''li_2'',
               cr_location_id = None, cr_inventory_item_id = ''I1'', cr_quantity = 12\<rparr>])"
    by simp
  from reserve_creates_one_reservation_per_link [OF h, of "''V2''" 4
         "\<lparr>ctx_locationId = None, ctx_lineItemId = Some ''li_2'',
           ctx_salesChannelId = Some ''sc_7''\<rparr>" "''loc-1''"] l2 c7
  have w4: "reserveQuantity ?s ''V2'' 4
       \<lparr>ctx_locationId = None, ctx_lineItemId = Some ''li_2'', ctx_salesChannelId = Some ''sc_7''\<rparr>
     = Inl (MedusaError INVALID_DATA
         ''Must provide location_id or sales_channel_id to a Sales Channel that has associated Stock Locations'')"
    by simp
  from w0 w1 w2 w3 w4 show ?thesis by blast
qed

text \<open>
  Claim C2 as stated fails: with two stock locations and neither a location id
  nor a sales channel id, reserving a linked variant does not fail; the
  reservation is requested with no location.
\<close>

theorem reserve_without_location_counterexample:
  "length (stockLocations (sample_service (Some (sample_ledger [] [])))) = 2
   \<and> reserveQuantity (sample_service (Some (sample_ledger [] []))) ''V2'' 1
       \<lparr>ctx_locationId = None, ctx_lineItemId = Some ''li_1'', ctx_salesChannelId = None\<rparr>
     = Inr (sample_service (Some (sample_ledger [] [])),
            [CreateReservationItem \<lparr>cr_type = ''order'', cr_line_item_id = Some ''li_1'',
               cr_location_id = None, cr_inventory_item_id = ''I1'', cr_quantity = 3\<rparr>])"
  by (simp add: sample_defs reserveQuantity_def reserve_location_def listByVariant_def)

text \<open>
  Claim C2, amended. With an inventory service and a variant that has links,
  \<open>reserveQuantity\<close> fails exactly when no location id is given and a sales
  channel id is given whose list of locations is empty; the error is the
  INVALID_DATA error asking for a location, and no call is issued. The stock
  locations are never consulted: in every other case the call succeeds and
  issues exactly one \<open>createReservationItem\<close> call per link, in turn, of the
  quantity times the link's quantity of the link's item, of type \<open>order\<close>, with
  the given line item id, at the given location id or else at the first
  location of the given sales channel or else, with neither, at no location.
\<close>

theorem reserve_fails_only_for_channel_without_locations:
  assumes "inventoryService s = Some ledger" and "listByVariant s [vid] \<noteq> []"
  shows "reserveQuantity s vid qty ctx =
          (if ctx_locationId ctx = None \<and> truthy_str (ctx_salesChannelId ctx) \<and>
              salesChannelLocations s (the (ctx_salesChannelId ctx)) = []
           then Inl (MedusaError INVALID_DATA
                   ''Must provide location_id or sales_channel_id to a Sales Channel that has associated Stock Locations'')
           else Inr (s, map (\<lambda>l. CreateReservationItem
                                   \<lparr>cr_type = ''order'',
                                    cr_line_item_id = ctx_lineItemId ctx,
                                    cr_location_id =
                                      (case ctx_locationId ctx of
                                         Some L \<Rightarrow> Some L
                                       | None \<Rightarrow>
                                           (if truthy_str (ctx_salesChannelId ctx)
                                            then Some (hd (salesChannelLocations s
                                                             (the (ctx_salesChannelId ctx))))
                                            else None)),
                                    cr_inventory_item_id = inventory_item_id l,
                                    cr_quantity = qty * quantity l\<rparr>)
                             (listByVariant s [vid])))"
  using assms
  by (cases "ctx_locationId ctx"; cases "salesChannelLocations s (the (ctx_salesChannelId ctx))")
     (auto simp: reserveQuantity_def reserve_location_def Let_def mult.commute)

theorem reserve_fails_only_for_channel_without_locations_witness:
  "reserveQuantity (sample_service (Some (sample_ledger [] []))) ''V1'' 1
       \<lparr>ctx_locationId = None, ctx_lineItemId = Some ''li_1'', ctx_salesChannelId = Some ''sc_9''\<rparr>
     = Inl (MedusaError INVALID_DATA
         ''Must provide location_id or sales_channel_id to a Sales Channel that has associated Stock Locations'')
   \<and> reserveQuantity (sample_service (Some (sample_ledger [] []))) ''V1'' 1
         \<lparr>ctx_locationId = Some ''loc-2'', ctx_lineItemId = Some ''li_1'',
          ctx_salesChannelId = Some ''sc_9''\<rparr>
     = Inr (sample_service (Some (sample_ledger [] [])),
            [CreateReservationItem \<lparr>cr_type = ''order'', cr_line_item_id = Some ''li_1'',
               cr_location_id = Some ''loc-2'', cr_inventory_item_id = ''I1'', cr_quantity = 2\<rparr>,
             CreateReservationItem \<lparr>cr_type = ''order'', cr_line_item_id = Some ''li_1'',
               cr_location_id = Some ''loc-2'', cr_inventory_item_id = ''I2'', cr_quantity = 1\<rparr>])"
proof -
  let ?s = "sample_service (Some (sample_ledger [] []))"
  have h1: "inventoryService ?s = Some (sample_ledger [] [])"
    by (simp add: sample_service_def)
  have h2: "listByVariant ?s [''V1''] \<noteq> []"
    by (simp add: sample_service_def sample_links_def listByVariant_def)
  have h3: "listByVariant ?s [''V1'']
              = [\<lparr>variant_id = ''V1'', inventory_item_id = ''I1'', quantity = 2\<rparr>,
                 \<lparr>variant_id = ''V1'', inventory_item_id = ''I2'', quantity = 1\<rparr>]"
    by (simp add: sample_service_def sample_links_def listByVariant_def)
  have h4: "salesChannelLocations ?s ''sc_9'' = []"
    by (simp add: sample_service_def)
  from reserve_fails_only_for_channel_without_locations [OF h1 h2,
      of 1 "\<lparr>ctx_locationId = None, ctx_lineItemId = Some ''li_1'',
           ctx_salesChannelId = Some ''sc_9''\<rparr>"]
    reserve_fails_only_for_channel_without_locations [OF h1 h2,
      of 1 "\<lparr>ctx_locationId = Some ''loc-2'', ctx_lineItemId = Some ''li_1'',
           ctx_salesChannelId = Some ''sc_9''\<rparr>"]
  show ?thesis
    by (simp add: h3 h4)
qed

section \<open>Attaching an inventory item to a variant\<close>

lemma find_Some_linked:
  "l \<in> set xs \<Longrightarrow> P l \<Longrightarrow> \<exists>l' \<in> set xs. P l' \<and> find P xs = Some l'"
  by (induction xs) auto

text \<open>
  Claim C3 as stated fails: for an existing variant and item that are already
  linked (with quantity 2), attaching with quantity 0 does not fail; it returns
  the existing link.
\<close>

theorem attach_zero_on_linked_pair_counterexample:
  "variants (sample_service (Some (sample_ledger [(''I1'', ''loc-1'', 5)] []))) ''V1'' \<noteq> None
   \<and> svc_hasInventoryItem (sample_ledger [(''I1'', ''loc-1'', 5)] []) ''I1''
   \<and> attachInventoryItem (sample_service (Some (sample_ledger [(''I1'', ''loc-1'', 5)] [])))
        ''V1'' ''I1'' (Some 0)
     = Inr (\<lparr>variant_id = ''V1'', inventory_item_id = ''I1'', quantity = 2\<rparr>,
            sample_service (Some (sample_ledger [(''I1'', ''loc-1'', 5)] [])))"
  by (simp add: sample_defs attachInventoryItem_def retrieve_variant_def)

text \<open>
  Claim C3, amended. For an existing variant and an existing inventory item:
  when the pair is not linked yet, attaching with a quantity below 1 (so with
  quantity 0) fails with the INVALID_DATA error on the quantity; when the pair
  is already linked, attaching returns a link of the table for that pair and
  leaves the table as it is, whatever quantity is passed.
\<close>

theorem attach_validates_quantity_only_for_new_pair:
  assumes "variants s vid = Some pv" and "inventoryService s = Some ledger"
    and "svc_hasInventoryItem ledger iid"
  shows "((\<forall>l \<in> set (links s). \<not> (variant_id l = vid \<and> inventory_item_id l = iid)) \<and> q < 1
            \<longrightarrow> attachInventoryItem s vid iid (Some q)
                  = Inl (MedusaError INVALID_DATA ''Quantity must be greater than 0''))
       \<and> ((\<exists>l \<in> set (links s). variant_id l = vid \<and> inventory_item_id l = iid)
            \<longrightarrow> (\<exists>existing \<in> set (links s).
                   variant_id existing = vid \<and> inventory_item_id existing = iid \<and>
                   attachInventoryItem s vid iid qopt = Inr (existing, s)))"
proof (intro conjI impI)
  assume "(\<forall>l \<in> set (links s). \<not> (variant_id l = vid \<and> inventory_item_id l = iid)) \<and> q < 1"
  then have "find (\<lambda>l. variant_id l = vid \<and> inventory_item_id l = iid) (links s) = None"
    and "q < 1"
    by (simp_all add: find_None_iff)
  with assms show "attachInventoryItem s vid iid (Some q)
                  = Inl (MedusaError INVALID_DATA ''Quantity must be greater than 0'')"
    by (simp add: attachInventoryItem_def retrieve_variant_def)
next
  assume "\<exists>l \<in> set (links s). variant_id l = vid \<and> inventory_item_id l = iid"
  then obtain existing where e: "existing \<in> set (links s)"
      "variant_id existing = vid \<and> inventory_item_id existing = iid"
      "find (\<lambda>l. variant_id l = vid \<and> inventory_item_id l = iid) (links s) = Some existing"
    using find_Some_linked [of _ "links s" "\<lambda>l. variant_id l = vid \<and> inventory_item_id l = iid"]
    by blast
  with assms have "attachInventoryItem s vid iid qopt = Inr (existing, s)"
    by (simp add: attachInventoryItem_def retrieve_variant_def)
  with e show "\<exists>existing \<in> set (links s).
                   variant_id existing = vid \<and> inventory_item_id existing = iid \<and>
                   attachInventoryItem s vid iid qopt = Inr (existing, s)"
    by blast
qed

theorem attach_validates_quantity_only_for_new_pair_witness:
  "attachInventoryItem (sample_service (Some (sample_ledger [(''I1'', ''loc-1'', 5)] [])))
        ''V3'' ''I1'' (Some 0)
     = Inl (MedusaError INVALID_DATA ''Quantity must be greater than 0'')
   \<and> attachInventoryItem (sample_service (Some (sample_ledger [(''I1'', ''loc-1'', 5)] [])))
        ''V1'' ''I1'' (Some 7)
     = Inr (\<lparr>variant_id = ''V1'', inventory_item_id = ''I1'', quantity = 2\<rparr>,
            sample_service (Some (sample_ledger [(''I1'', ''loc-1'', 5)] [])))"
  using attach_validates_quantity_only_for_new_pair
      [of "sample_service (Some (sample_ledger [(''I1'', ''loc-1'', 5)] []))" "''V3''"
          "\<lparr>allow_backorder = False, manage_inventory = False, inventory_quantity = 0\<rparr>"
          "sample_ledger [(''I1'', ''loc-1'', 5)] []" "''I1''" 0 None]
    attach_validates_quantity_only_for_new_pair
      [of "sample_service (Some (sample_ledger [(''I1'', ''loc-1'', 5)] []))" "''V1''"
          "\<lparr>allow_backorder = False, manage_inventory = True, inventory_quantity = 10\<rparr>"
          "sample_ledger [(''I1'', ''loc-1'', 5)] []" "''I1''" 0 "Some 7"]
  by (simp add: sample_defs)

section \<open>Availability through the inventory service\<close>

text \<open>
  Claim C5 as stated fails: variant V2 has a link to item I1 and the inventory
  service confirms nothing, yet the answer is true, because V2 allows
  backorders.
\<close>

theorem confirmInventory_backorder_linked_counterexample:
  "listByVariant (sample_service (Some (sample_ledger [] []))) [''V2''] \<noteq> []
   \<and> \<not> svc_confirmInventory (sample_ledger [] []) ''I1'' [''loc-1'', ''loc-2''] (1 * 3)
   \<and> confirmInventory (sample_service (Some (sample_ledger [] []))) (Some ''V2'') 1 None
       = Inr True"
  by (simp add: sample_defs listByVariant_def confirmInventory_def retrieve_variant_def)

text \<open>
  Claim C5, amended. With an inventory service, for an existing variant: a
  variant without links is available in any quantity; a variant with links
  whose inventory is managed and that does not allow backorders is available
  in quantity \<open>N\<close> exactly when the inventory service confirms \<open>N\<close> times the
  link's quantity for every link, over the locations of the given sales channel
  or, without one, over all stock locations.
\<close>

theorem confirmInventory_asks_every_link:
  assumes "inventoryService s = Some ledger" and "vid \<noteq> []" and "variants s vid = Some pv"
  shows "(listByVariant s [vid] = [] \<longrightarrow> confirmInventory s (Some vid) N salesChannelId = Inr True)
       \<and> (listByVariant s [vid] \<noteq> [] \<and> \<not> allow_backorder pv \<and> manage_inventory pv \<longrightarrow>
            confirmInventory s (Some vid) N salesChannelId =
              Inr (\<forall>l \<in> set (listByVariant s [vid]).
                     svc_confirmInventory ledger (inventory_item_id l)
                       (if truthy_str salesChannelId then salesChannelLocations s (the salesChannelId)
                        else stockLocations s)
                       (N * quantity l)))"
  using assms
  by (auto simp: confirmInventory_def retrieve_variant_def Let_def list_all_iff mult.commute)

theorem confirmInventory_asks_every_link_witness:
  "confirmInventory
      (sample_service (Some (sample_ledger [(''I1'', ''loc-1'', 5), (''I2'', ''loc-2'', 9)] [])))
      (Some ''V1'') 3 None = Inr False
   \<and> confirmInventory
      (sample_service (Some (sample_ledger
         [(''I1'', ''loc-1'', 5), (''I1'', ''loc-2'', 1), (''I2'', ''loc-2'', 9)] [])))
      (Some ''V1'') 3 None = Inr True
   \<and> confirmInventory (sample_service (Some (sample_ledger [] []))) (Some ''V3'') 3 None
       = Inr True"
  using confirmInventory_asks_every_link
      [of "sample_service (Some (sample_ledger [(''I1'', ''loc-1'', 5), (''I2'', ''loc-2'', 9)] []))"
          "sample_ledger [(''I1'', ''loc-1'', 5), (''I2'', ''loc-2'', 9)] []" "''V1''"
          "\<lparr>allow_backorder = False, manage_inventory = True, inventory_quantity = 10\<rparr>" 3 None]
    confirmInventory_asks_every_link
      [of "sample_service (Some (sample_ledger
             [(''I1'', ''loc-1'', 5), (''I1'', ''loc-2'', 1), (''I2'', ''loc-2'', 9)] []))"
          "sample_ledger [(''I1'', ''loc-1'', 5), (''I1'', ''loc-2'', 1), (''I2'', ''loc-2'', 9)] []"
          "''V1''"
          "\<lparr>allow_backorder = False, manage_inventory = True, inventory_quantity = 10\<rparr>" 3 None]
    confirmInventory_asks_every_link
      [of "sample_service (Some (sample_ledger [] []))" "sample_ledger [] []" "''V3''"
          "\<lparr>allow_backorder = False, manage_inventory = False, inventory_quantity = 0\<rparr>" 3 None]
  by (simp add: sample_defs listByVariant_def)

section \<open>The reservation an adjustment targets\<close>

lemma find_first_of_sorted:
  assumes "sorted_wrt (\<lambda>a b. f b \<le> (f a :: nat)) rs" and "find P rs = Some t"
  shows "t \<in> set rs \<and> P t \<and> (\<forall>r \<in> set rs. P r \<longrightarrow> f r \<le> f t)"
  using assms
proof (induction rs)
  case Nil
  then show ?case by simp
next
  case (Cons x xs)
  show ?case
  proof (cases "P x")
    case True
    with Cons.prems show ?thesis by auto
  next
    case False
    with Cons show ?thesis by auto
  qed
qed

lemma hd_of_sorted:
  assumes "sorted_wrt (\<lambda>a b. f b \<le> (f a :: nat)) rs" and "rs \<noteq> []"
  shows "\<forall>r \<in> set rs. f r \<le> f (hd rs)"
  using assms by (cases rs) auto

lemma target_reservation_props:
  assumes "sorted_wrt (\<lambda>a b. rsv_created_at b \<le> rsv_created_at a) rs" and "rs \<noteq> []"
  shows "\<exists>t \<in> set rs. target_reservation rs loc qty = Some t \<and>
           (if \<exists>r \<in> set rs. rsv_location_id r = loc \<and> qty \<le> rsv_quantity r
            then rsv_location_id t = loc \<and> qty \<le> rsv_quantity t \<and>
                 (\<forall>r \<in> set rs. rsv_location_id r = loc \<and> qty \<le> rsv_quantity r
                     \<longrightarrow> rsv_created_at r \<le> rsv_created_at t)
            else t = hd rs \<and> (\<forall>r \<in> set rs. rsv_created_at r \<le> rsv_created_at t))"
proof (cases "find (\<lambda>r. rsv_location_id r = loc \<and> qty \<le> rsv_quantity r) rs")
  case None
  then have no: "\<not> (\<exists>r \<in> set rs. rsv_location_id r = loc \<and> qty \<le> rsv_quantity r)"
    by (simp add: find_None_iff)
  from None assms(2) have "target_reservation rs loc qty = Some (hd rs)"
    by (cases rs) (simp_all add: target_reservation_def)
  with no assms hd_of_sorted [OF assms] show ?thesis
    by (intro bexI [of _ "hd rs"]) auto
next
  case (Some t)
  from find_first_of_sorted [OF assms(1) Some]
  have t: "t \<in> set rs" "rsv_location_id t = loc \<and> qty \<le> rsv_quantity t"
    "\<forall>r \<in> set rs. rsv_location_id r = loc \<and> qty \<le> rsv_quantity r
        \<longrightarrow> rsv_created_at r \<le> rsv_created_at t"
    by auto
  from Some have "target_reservation rs loc qty = Some t"
    by (simp add: target_reservation_def)
  with t show ?thesis
    by (intro bexI [of _ t]) auto
qed

text \<open>
  Claim C4 as stated fails for a negative adjustment: with the most recent
  reservation \<open>res_1\<close> at \<open>loc-1\<close> and an older \<open>res_2\<close> of quantity 2 at \<open>loc-2\<close>,
  an adjustment of \<open>- 3\<close> at \<open>loc-2\<close> targets \<open>res_2\<close>, although its quantity 2 is
  below the magnitude 3 of the adjustment.
\<close>

theorem adjust_target_negative_delta_counterexample:
  "svc_listReservationItems (sample_ledger [] sample_reservations) ''li_1''
     = ([\<lparr>rsv_id = ''res_1'', rsv_location_id = ''loc-1'', rsv_inventory_item_id = ''I1'',
          rsv_quantity = 6, rsv_created_at = 20\<rparr>,
         \<lparr>rsv_id = ''res_2'', rsv_location_id = ''loc-2'', rsv_inventory_item_id = ''I2'',
          rsv_quantity = 2, rsv_created_at = 10\<rparr>], 2)
   \<and> \<not> (\<bar>- 3\<bar> \<le> (2 :: int))
   \<and> adjustReservationsQuantityByLineItem
        (sample_service (Some (sample_ledger [] sample_reservations)))
        ''li_1'' ''V1'' ''loc-2'' (- 3)
      = Inr (sample_service (Some (sample_ledger [] sample_reservations)),
             [UpdateReservationItem ''res_2'' 5])"
  by (simp add: sample_defs adjustReservationsQuantityByLineItem_def target_reservation_def
      retrieve_def)

text \<open>
  Claim C4, amended. With an inventory service whose listing for the line item
  is not empty and is ordered by creation time, most recent first, and with the
  links of the listed items present, the adjustment issues a single delete or
  update call on one listed reservation \<open>t\<close>. If some listed reservation is at
  the given location with a quantity at least the signed adjustment \<open>qty\<close>
  (not its absolute value), \<open>t\<close> is the most recently created such reservation;
  otherwise \<open>t\<close> is the first of the listing, the most recently created one.
\<close>

theorem adjust_targets_recent_or_located:
  assumes "inventoryService s = Some ledger"
    and "svc_listReservationItems ledger lineItemId = (rs, n)" and "n \<noteq> 0" and "rs \<noteq> []"
    and "sorted_wrt (\<lambda>a b. rsv_created_at b \<le> rsv_created_at a) rs"
    and "\<forall>r \<in> set rs. \<exists>link. retrieve s (rsv_inventory_item_id r) vid = Inr link"
  shows "\<exists>t \<in> set rs.
           (adjustReservationsQuantityByLineItem s lineItemId vid loc qty
              = Inr (s, [DeleteReservationItem (rsv_id t)])
            \<or> (\<exists>q'. adjustReservationsQuantityByLineItem s lineItemId vid loc qty
                  = Inr (s, [UpdateReservationItem (rsv_id t) q'])))
           \<and> (if \<exists>r \<in> set rs. rsv_location_id r = loc \<and> qty \<le> rsv_quantity r
              then rsv_location_id t = loc \<and> qty \<le> rsv_quantity t \<and>
                   (\<forall>r \<in> set rs. rsv_location_id r = loc \<and> qty \<le> rsv_quantity r
                       \<longrightarrow> rsv_created_at r \<le> rsv_created_at t)
              else t = hd rs \<and> (\<forall>r \<in> set rs. rsv_created_at r \<le> rsv_created_at t))"
proof -
  from target_reservation_props [OF assms(5) assms(4), of loc qty]
  obtain t where t: "t \<in> set rs" "target_reservation rs loc qty = Some t"
    and sel: "if \<exists>r \<in> set rs. rsv_location_id r = loc \<and> qty \<le> rsv_quantity r
            then rsv_location_id t = loc \<and> qty \<le> rsv_quantity t \<and>
                 (\<forall>r \<in> set rs. rsv_location_id r = loc \<and> qty \<le> rsv_quantity r
                     \<longrightarrow> rsv_created_at r \<le> rsv_created_at t)
            else t = hd rs \<and> (\<forall>r \<in> set rs. rsv_created_at r \<le> rsv_created_at t)"
    by blast
  from assms(6) t(1) obtain link where link: "retrieve s (rsv_inventory_item_id t) vid = Inr link"
    by blast
  have "adjustReservationsQuantityByLineItem s lineItemId vid loc qty
              = Inr (s, [DeleteReservationItem (rsv_id t)])
        \<or> (\<exists>q'. adjustReservationsQuantityByLineItem s lineItemId vid loc qty
                  = Inr (s, [UpdateReservationItem (rsv_id t) q']))"
    using assms(1-3) t(2) link
    by (simp add: adjustReservationsQuantityByLineItem_def Let_def)
  with t(1) sel show ?thesis by blast
qed

theorem adjust_targets_recent_or_located_witness:
  "\<exists>t \<in> set sample_reservations.
     (adjustReservationsQuantityByLineItem
        (sample_service (Some (sample_ledger [] sample_reservations))) ''li_1'' ''V1'' ''loc-2'' 2
          = Inr (sample_service (Some (sample_ledger [] sample_reservations)),
                 [DeleteReservationItem (rsv_id t)])
      \<or> (\<exists>q'. adjustReservationsQuantityByLineItem
            (sample_service (Some (sample_ledger [] sample_reservations)))
            ''li_1'' ''V1'' ''loc-2'' 2
          = Inr (sample_service (Some (sample_ledger [] sample_reservations)),
                 [UpdateReservationItem (rsv_id t) q'])))
     \<and> rsv_id t = ''res_2''"
proof -
  let ?s = "sample_service (Some (sample_ledger [] sample_reservations))"
  have h1: "inventoryService ?s = Some (sample_ledger [] sample_reservations)"
    by (simp add: sample_defs)
  have h2: "svc_listReservationItems (sample_ledger [] sample_reservations) ''li_1''
              = (sample_reservations, 2)"
    by (simp add: sample_defs)
  have h3: "(2 :: nat) \<noteq> 0" by simp
  have h4: "sample_reservations \<noteq> []" by (simp add: sample_defs)
  have h5: "sorted_wrt (\<lambda>a b. rsv_created_at b \<le> rsv_created_at a) sample_reservations"
    by (simp add: sample_defs)
  have h6: "\<forall>r \<in> set sample_reservations.
              \<exists>link. retrieve ?s (rsv_inventory_item_id r) ''V1'' = Inr link"
    by (simp add: sample_defs retrieve_def)
  have h7: "\<exists>r \<in> set sample_reservations. rsv_location_id r = ''loc-2'' \<and> 2 \<le> rsv_quantity r"
    by (simp add: sample_defs)
  from adjust_targets_recent_or_located [OF h1 h2 h3 h4 h5 h6, of "''loc-2''" 2] h7
  show ?thesis
    by (auto simp: sample_reservations_def)
qed

section \<open>Validating stock at a location\<close>

lemma validate_levels_cases:
  "validate_levels pvs item lvls = Inr () \<or>
   validate_levels pvs item lvls
     = Inl (MedusaError NOT_ALLOWED (''Insufficient stock for item: '' @ li_title item))"
  by (induction lvls) (auto simp: Let_def)

lemma validate_items_Inl:
  assumes "validate_items s ledger items loc = Inl e"
  shows "\<exists>before item after.
           items = before @ item # after \<and>
           (\<forall>x \<in> set before.
              validate_levels (listByVariant s [the (li_variant_id x)]) x
                (svc_listInventoryLevels ledger
                   (map inventory_item_id (listByVariant s [the (li_variant_id x)])) loc)
              = Inr ()) \<and>
           validate_levels (listByVariant s [the (li_variant_id item)]) item
             (svc_listInventoryLevels ledger
                (map inventory_item_id (listByVariant s [the (li_variant_id item)])) loc)
             = Inl e \<and>
           svc_listInventoryLevels ledger
             (map inventory_item_id (listByVariant s [the (li_variant_id item)])) loc \<noteq> [] \<and>
           e = MedusaError NOT_ALLOWED (''Insufficient stock for item: '' @ li_title item)"
  using assms
proof (induction items)
  case Nil
  then show ?case by simp
next
  case (Cons x xs)
  let ?pvs = "listByVariant s [the (li_variant_id x)]"
  let ?lvls = "svc_listInventoryLevels ledger (map inventory_item_id ?pvs) loc"
  show ?case
  proof (cases "validate_levels ?pvs x ?lvls")
    case (Inl e')
    with Cons.prems have e: "e' = e" by (simp add: Let_def)
    from Inl have ne: "?lvls \<noteq> []" by auto
    from Inl e validate_levels_cases [of ?pvs x ?lvls]
    have "e = MedusaError NOT_ALLOWED (''Insufficient stock for item: '' @ li_title x)"
      by simp
    with Inl e ne show ?thesis
      by (intro exI [of _ "[]"] exI [of _ x] exI [of _ xs]) simp
  next
    case (Inr u)
    with Cons.prems have "validate_items s ledger xs loc = Inl e"
      by (simp add: Let_def)
    from Cons.IH [OF this] obtain before item after where
      d: "xs = before @ item # after"
      and p: "\<forall>y \<in> set before.
              validate_levels (listByVariant s [the (li_variant_id y)]) y
                (svc_listInventoryLevels ledger
                   (map inventory_item_id (listByVariant s [the (li_variant_id y)])) loc)
              = Inr ()"
      and q: "validate_levels (listByVariant s [the (li_variant_id item)]) item
             (svc_listInventoryLevels ledger
                (map inventory_item_id (listByVariant s [the (li_variant_id item)])) loc)
             = Inl e"
        "svc_listInventoryLevels ledger
             (map inventory_item_id (listByVariant s [the (li_variant_id item)])) loc \<noteq> []"
        "e = MedusaError NOT_ALLOWED (''Insufficient stock for item: '' @ li_title item)"
      by blast
    from Inr p have "\<forall>y \<in> set (x # before).
              validate_levels (listByVariant s [the (li_variant_id y)]) y
                (svc_listInventoryLevels ledger
                   (map inventory_item_id (listByVariant s [the (li_variant_id y)])) loc)
              = Inr ()"
      by simp
    with d q show ?thesis
      by (intro exI [of _ "x # before"] exI [of _ item] exI [of _ after]) simp
  qed
qed

lemma validate_items_no_levels:
  assumes "\<forall>item \<in> set items.
             svc_listInventoryLevels ledger
               (map inventory_item_id (listByVariant s [the (li_variant_id item)])) loc = []"
  shows "validate_items s ledger items loc = Inr ()"
  using assms by (induction items) (simp_all add: Let_def)

text \<open>
  The link of a found stock level is looked up with \<^verbatim>\<open>pviMap[id]\<close>, which does
  not read the entries of the \<^verbatim>\<open>Map\<close>. A level found for an ordinary item id
  is therefore rejected even when the stock suffices: here one unit of a variant
  that takes 3 of item I1, with 10 of I1 stocked at the location. For the same
  reason the line item named need not be one that is short of stock: below, the
  mug has enough stock and the shirt has not, and the mug is named.
\<close>

lemma validate_rejects_sufficient_stock:
  "validateInventoryAtLocation
      (sample_service (Some (sample_ledger [(''I1'', ''loc-1'', 10)] [])))
      [\<lparr>li_variant_id = Some ''V2'', li_quantity = 1, li_title = ''Mug''\<rparr>] ''loc-1''
     = Inl (MedusaError NOT_ALLOWED ''Insufficient stock for item: Mug'')"
  by (simp add: sample_defs validateInventoryAtLocation_def listByVariant_def pviMap_read_def
      map_members_def)

lemma validate_names_first_line_item_with_levels:
  "validateInventoryAtLocation
      (sample_service (Some (sample_ledger [(''I1'', ''loc-1'', 10)] [])))
      [\<lparr>li_variant_id = Some ''V2'', li_quantity = 1, li_title = ''Mug''\<rparr>,
       \<lparr>li_variant_id = Some ''V1'', li_quantity = 100, li_title = ''Shirt''\<rparr>] ''loc-1''
     = Inl (MedusaError NOT_ALLOWED ''Insufficient stock for item: Mug'')"
  by (simp add: sample_defs validateInventoryAtLocation_def listByVariant_def pviMap_read_def
      map_members_def)

text \<open>
  Claim C1 as stated fails: variant V2 is linked to item I1, which is stocked at
  \<open>loc-2\<close> only, so I1 is missing from the stock levels of \<open>loc-1\<close>; validating
  a line item of V2 at \<open>loc-1\<close> nevertheless succeeds.
\<close>

theorem validate_missing_level_accepted_counterexample:
  "map inventory_item_id
      (listByVariant (sample_service (Some (sample_ledger [(''I1'', ''loc-2'', 50)] []))) [''V2''])
     = [''I1'']
   \<and> svc_listInventoryLevels (sample_ledger [(''I1'', ''loc-2'', 50)] []) [''I1''] ''loc-1'' = []
   \<and> validateInventoryAtLocation
        (sample_service (Some (sample_ledger [(''I1'', ''loc-2'', 50)] [])))
        [\<lparr>li_variant_id = Some ''V2'', li_quantity = 2, li_title = ''Mug''\<rparr>] ''loc-1''
      = Inr (sample_service (Some (sample_ledger [(''I1'', ''loc-2'', 50)] [])), [])"
  by (simp add: sample_defs validateInventoryAtLocation_def listByVariant_def)

text \<open>
  Claim C1, amended. With an inventory service:
  \<^item> a linked item that is missing from the location's stock levels is not
    detected: if, for every line item with a variant, no stock level is found at
    the location for the variant's linked items, the validation succeeds;
  \<^item> the validation performs no mutation: whenever it succeeds, the service is
    as before and no write call has been issued;
  \<^item> whenever it fails, the error is the NOT_ALLOWED error
    \<open>Insufficient stock for item\<close> naming the offending line item: the first
    of the line items with a variant, in their order, whose found stock levels
    do not pass the check of \<open>validate_levels\<close>; every line item with a variant
    before it passes, and at least one stock level is found for it.

  Which found stock levels pass the check of \<open>validate_levels\<close> is not part of
  the statement.
\<close>

theorem validate_missing_level_passes_without_mutation:
  assumes "inventoryService s = Some ledger"
  shows "((\<forall>item \<in> set items. truthy_str (li_variant_id item) \<longrightarrow>
             svc_listInventoryLevels ledger
               (map inventory_item_id (listByVariant s [the (li_variant_id item)])) loc = [])
           \<longrightarrow> validateInventoryAtLocation s items loc = Inr (s, []))
       \<and> (validateInventoryAtLocation s items loc = Inr (s', calls)
           \<longrightarrow> s' = s \<and> calls = [])
       \<and> (validateInventoryAtLocation s items loc = Inl e
           \<longrightarrow> (\<exists>before item after.
                  filter (\<lambda>item. truthy_str (li_variant_id item)) items
                    = before @ item # after \<and>
                  (\<forall>x \<in> set before.
                     validate_levels (listByVariant s [the (li_variant_id x)]) x
                       (svc_listInventoryLevels ledger
                          (map inventory_item_id (listByVariant s [the (li_variant_id x)])) loc)
                     = Inr ()) \<and>
                  validate_levels (listByVariant s [the (li_variant_id item)]) item
                    (svc_listInventoryLevels ledger
                       (map inventory_item_id (listByVariant s [the (li_variant_id item)])) loc)
                    = Inl e \<and>
                  svc_listInventoryLevels ledger
                    (map inventory_item_id (listByVariant s [the (li_variant_id item)])) loc
                    \<noteq> [] \<and>
                  e = MedusaError NOT_ALLOWED
                        (''Insufficient stock for item: '' @ li_title item)))"
proof (intro conjI impI)
  assume "\<forall>item \<in> set items. truthy_str (li_variant_id item) \<longrightarrow>
             svc_listInventoryLevels ledger
               (map inventory_item_id (listByVariant s [the (li_variant_id item)])) loc = []"
  then show "validateInventoryAtLocation s items loc = Inr (s, [])"
    using assms by (simp add: validateInventoryAtLocation_def validate_items_no_levels)
next
  assume "validateInventoryAtLocation s items loc = Inr (s', calls)"
  with assms show "s' = s" and "calls = []"
    by (auto simp: validateInventoryAtLocation_def split: sum.splits)
next
  assume "validateInventoryAtLocation s items loc = Inl e"
  with assms
  have "validate_items s ledger (filter (\<lambda>item. truthy_str (li_variant_id item)) items) loc
          = Inl e"
    by (simp add: validateInventoryAtLocation_def split: sum.splits)
  from validate_items_Inl [OF this]
  show "\<exists>before item after.
          filter (\<lambda>item. truthy_str (li_variant_id item)) items = before @ item # after \<and>
          (\<forall>x \<in> set before.
             validate_levels (listByVariant s [the (li_variant_id x)]) x
               (svc_listInventoryLevels ledger
                  (map inventory_item_id (listByVariant s [the (li_variant_id x)])) loc)
             = Inr ()) \<and>
          validate_levels (listByVariant s [the (li_variant_id item)]) item
            (svc_listInventoryLevels ledger
               (map inventory_item_id (listByVariant s [the (li_variant_id item)])) loc)
            = Inl e \<and>
          svc_listInventoryLevels ledger
            (map inventory_item_id (listByVariant s [the (li_variant_id item)])) loc \<noteq> [] \<and>
          e = MedusaError NOT_ALLOWED (''Insufficient stock for item: '' @ li_title item)" .
qed

theorem validate_missing_level_passes_without_mutation_witness:
  "validateInventoryAtLocation
      (sample_service (Some (sample_ledger [(''I1'', ''loc-2'', 5)] [])))
      [\<lparr>li_variant_id = None, li_quantity = 9, li_title = ''Gift card''\<rparr>,
       \<lparr>li_variant_id = Some ''V1'', li_quantity = 2, li_title = ''Cap''\<rparr>] ''loc-1''
     = Inr (sample_service (Some (sample_ledger [(''I1'', ''loc-2'', 5)] [])), [])
   \<and> validateInventoryAtLocation
        (sample_service (Some (sample_ledger [(''I1'', ''loc-2'', 5)] [])))
        [\<lparr>li_variant_id = None, li_quantity = 9, li_title = ''Gift card''\<rparr>,
         \<lparr>li_variant_id = Some ''V2'', li_quantity = 2, li_title = ''Mug''\<rparr>] ''loc-2''
      = Inl (MedusaError NOT_ALLOWED ''Insufficient stock for item: Mug'')"
proof -
  let ?ledger = "sample_ledger [(''I1'', ''loc-2'', 5)] []"
  let ?s = "sample_service (Some ?ledger)"
  let ?card = "\<lparr>li_variant_id = None, li_quantity = 9, li_title = ''Gift card''\<rparr>"
  let ?mug = "\<lparr>li_variant_id = Some ''V2'', li_quantity = 2, li_title = ''Mug''\<rparr>"
  let ?others = "[?card, \<lparr>li_variant_id = Some ''V1'', li_quantity = 2, li_title = ''Cap''\<rparr>]"
  have h: "inventoryService ?s = Some ?ledger"
    by (simp add: sample_service_def)
  have none: "\<forall>item \<in> set ?others. truthy_str (li_variant_id item) \<longrightarrow>
             svc_listInventoryLevels ?ledger
               (map inventory_item_id (listByVariant ?s [the (li_variant_id item)])) ''loc-1''
               = []"
    by (simp add: sample_service_def sample_links_def sample_ledger_def listByVariant_def)
  with validate_missing_level_passes_without_mutation [OF h, of ?others "''loc-1''"]
  have ok: "validateInventoryAtLocation ?s ?others ''loc-1'' = Inr (?s, [])"
    by blast
  have "\<exists>e. validateInventoryAtLocation ?s [?card, ?mug] ''loc-2'' = Inl e"
    by (simp add: sample_defs validateInventoryAtLocation_def listByVariant_def pviMap_read_def
        map_members_def)
  then obtain e where e: "validateInventoryAtLocation ?s [?card, ?mug] ''loc-2'' = Inl e"
    by blast
  have f: "filter (\<lambda>item. truthy_str (li_variant_id item)) [?card, ?mug] = [?mug]"
    by simp
  from validate_missing_level_passes_without_mutation [OF h, of "[?card, ?mug]" "''loc-2''" _ _ e]
    e
  obtain before item after where
    "filter (\<lambda>item. truthy_str (li_variant_id item)) [?card, ?mug] = before @ item # after"
    and "e = MedusaError NOT_ALLOWED (''Insufficient stock for item: '' @ li_title item)"
    by blast
  with f have "e = MedusaError NOT_ALLOWED ''Insufficient stock for item: Mug''"
    by (auto simp: Cons_eq_append_conv)
  with e ok show ?thesis by simp
qed

end
